theory Spec2Isabelle
  imports Main "HOL-Library.Word"
begin

section \<open>gotftp: the per-session protocol engine of handler.go\<close>

text \<open>
  A shallow embedding of \<^verbatim>\<open>handler.go\<close>. The session talks to its peer through the
  two interfaces \<^verbatim>\<open>packetReader\<close> and \<^verbatim>\<open>packetWriter\<close> and to the file backend
  through \<^verbatim>\<open>Handler\<close>; all three are interfaces in the source, so the model takes
  their behaviour as data (a script of read results, a script of write results, a
  record of functions) and records every call in a trace.
\<close>

subsection \<open>Errors\<close>

text \<open>
  Go compares error values by identity (\<^verbatim>\<open>err == ErrTimeout\<close>,
  \<^verbatim>\<open>switch err { case os.ErrNotExist: ... }\<close>). The sentinels the source compares
  against are constructors of their own. Of the other error values a backend can
  return, \<open>PathError\<close> is the \<^verbatim>\<open>*fs.PathError\<close> of \<^verbatim>\<open>os.Open\<close> (fields \<^verbatim>\<open>Op\<close>,
  \<^verbatim>\<open>Path\<close>, \<^verbatim>\<open>Err\<close>), \<open>ENOENT\<close> and \<open>EACCES\<close> are the two \<^verbatim>\<open>syscall.Errno\<close>
  values it wraps for a missing and for an unreadable file, and any further error
  value is \<open>OtherError\<close> with its text (an error that wraps no other).
\<close>

datatype error =
    ErrTimeout
  | ErrNotExist
  | ErrPermission
  | EOF
  | ENOENT
  | EACCES
  | PathError string string error
  | OtherError string

text \<open>\<^verbatim>\<open>err.Error()\<close>.\<close>

fun Error :: "error \<Rightarrow> string" where
  "Error ErrTimeout = ''timeout''"
| "Error ErrNotExist = ''file does not exist''"
| "Error ErrPermission = ''permission denied''"
| "Error EOF = ''EOF''"
| "Error ENOENT = ''no such file or directory''"
| "Error EACCES = ''permission denied''"
| "Error (PathError op path e) = op @ '' '' @ path @ '': '' @ Error e"
| "Error (OtherError t) = t"

text \<open>
  The error of \<^verbatim>\<open>strconv.Atoi\<close> is always a \<^verbatim>\<open>*strconv.NumError\<close> (fields \<^verbatim>\<open>Func\<close>,
  \<^verbatim>\<open>Num\<close>, \<^verbatim>\<open>Err\<close>), and it is the only error \<^verbatim>\<open>negotiate\<close> returns; it has a type
  of its own here. Its text is
  \<^verbatim>\<open>"strconv." + Func + ": parsing " + Quote(Num) + ": " + Err.Error()\<close>.
  What \<^verbatim>\<open>strconv.Quote\<close> returns depends on the Unicode tables of the Go library
  (which runes are printable), so the quoting function is a parameter, \<open>quote\<close>, of
  the text and of every function that sends it.
\<close>

datatype numerr = ErrSyntax | ErrRange

datatype numerror = NumError string string numerr

fun numerr_text :: "numerr \<Rightarrow> string" where
  "numerr_text ErrSyntax = ''invalid syntax''"
| "numerr_text ErrRange = ''value out of range''"

fun NumError_Error :: "(string \<Rightarrow> string) \<Rightarrow> numerror \<Rightarrow> string" where
  "NumError_Error quote (NumError f n k) =
     ''strconv.'' @ f @ '': parsing '' @ quote n @ '': '' @ numerr_text k"

subsection \<open>strconv.Atoi and strconv.Itoa\<close>

text \<open>
  \<^verbatim>\<open>strconv.Atoi\<close> for a 64-bit \<^verbatim>\<open>int\<close>: an optional sign, then one or more decimal
  digits; the digits are accumulated left to right as in \<^verbatim>\<open>ParseUint\<close> (a byte that
  is no digit is a syntax error, an accumulator beyond 64 bits a range error,
  whichever comes first), and the signed value must fit 64 bits. The unsigned
  accumulator is an \<open>int\<close> with the bound of \<^verbatim>\<open>uint64\<close> checked as the code checks it.
\<close>

definition digit_of :: "char \<Rightarrow> int option" where
  "digit_of c = (let n = (of_char c :: int) in if 48 \<le> n \<and> n \<le> 57 then Some (n - 48) else None)"

definition maxUint64 :: int where
  "maxUint64 = 18446744073709551615"

fun parseDigits :: "int \<Rightarrow> string \<Rightarrow> numerr + int" where
  "parseDigits n [] = Inr n"
| "parseDigits n (c # cs) =
     (case digit_of c of
        None \<Rightarrow> Inl ErrSyntax
      | Some d \<Rightarrow>
          if n \<ge> maxUint64 div 10 + 1 then Inl ErrRange
          else if n * 10 + d > maxUint64 then Inl ErrRange
          else parseDigits (n * 10 + d) cs)"

definition Atoi :: "string \<Rightarrow> numerror + int" where
  "Atoi s =
     (case s of
        [] \<Rightarrow> Inl (NumError ''Atoi'' s ErrSyntax)
      | c # cs \<Rightarrow>
          let neg = (c = CHR ''-'');
              ds = (if c = CHR ''+'' \<or> c = CHR ''-'' then cs else s)
          in if ds = [] then Inl (NumError ''Atoi'' s ErrSyntax)
             else (case parseDigits 0 ds of
                     Inl k \<Rightarrow> Inl (NumError ''Atoi'' s k)
                   | Inr un \<Rightarrow>
                       if \<not> neg \<and> un \<ge> 2 ^ 63 then Inl (NumError ''Atoi'' s ErrRange)
                       else if neg \<and> un > 2 ^ 63 then Inl (NumError ''Atoi'' s ErrRange)
                       else Inr (if neg then - un else un)))"

text \<open>\<^verbatim>\<open>strconv.Itoa\<close>: the decimal digits, most significant first, after a minus sign
  for a negative number.\<close>

fun digits :: "nat \<Rightarrow> string" where
  "digits n = (if n < 10 then [''0123456789'' ! n] else digits (n div 10) @ [''0123456789'' ! (n mod 10)])"

declare digits.simps [simp del]

definition Itoa :: "int \<Rightarrow> string" where
  "Itoa i = (if i < 0 then CHR ''-'' # digits (nat (- i)) else digits (nat i))"

subsection \<open>Packets\<close>

text \<open>
  The option maps are \<^verbatim>\<open>map[string]string\<close>; they are association lists here, looked up
  with \<open>map_of\<close>, and \<^verbatim>\<open>len(o) > 0\<close> is \<open>o \<noteq> []\<close>.
\<close>

type_synonym options = "(string \<times> string) list"

text \<open>
  Modelled from the spec: the packet types. They are declared in a file of the
  repository that is not among the sources at hand; the specification lists the
  packets at the boundary of the session (request packets with a file name and
  options, data packets with a block number and bytes, acknowledgements with a block
  number, error packets with a numeric code and a text, option acknowledgements with
  the accepted options), and the constructors below carry exactly the fields
  \<^verbatim>\<open>handler.go\<close> reads or writes: \<^verbatim>\<open>packetRRQ{filename, options}\<close>,
  \<^verbatim>\<open>packetDATA{blockNr, data}\<close>, \<^verbatim>\<open>packetACK{blockNr}\<close>,
  \<^verbatim>\<open>packetERROR{errorCode, errorMessage}\<close>, \<^verbatim>\<open>packetOACK{options}\<close>. Nothing of a
  \<^verbatim>\<open>packetWRQ\<close> is read; it is given the fields of a read request.
\<close>

datatype packet =
    RRQ string options
  | WRQ string options
  | DATA "16 word" "8 word list"
  | ACK "16 word"
  | ERROR "16 word" string
  | OACK options

subsection \<open>The session and its option negotiation\<close>

record session =
  blksize :: int
  timeout :: int

text \<open>
  \<^verbatim>\<open>negotiate\<close> mutates the session and returns early on the first value that does not
  parse; the model returns the session as it stands at the return. The second half
  of the function (the \<^verbatim>\<open>timeout\<close> key) is \<open>negotiate_timeout\<close>, entered with the
  \<^verbatim>\<open>oack\<close> map built so far.
\<close>

definition negotiate_timeout ::
  "options \<Rightarrow> options \<Rightarrow> session \<Rightarrow> (numerror + options) \<times> session" where
  "negotiate_timeout opts oack s =
     (case map_of opts ''timeout'' of
        None \<Rightarrow> (Inr oack, s)
      | Some t \<Rightarrow>
          (case Atoi t of
             Inl e \<Rightarrow> (Inl e, s)
           | Inr i \<Rightarrow>
               let s' = s\<lparr>timeout := (if i < 1 then 1 else if i > 255 then 255 else i)\<rparr>
               in (Inr (oack @ [(''timeout'', Itoa (timeout s'))]), s')))"

definition negotiate :: "options \<Rightarrow> session \<Rightarrow> (numerror + options) \<times> session" where
  "negotiate opts s =
     (case map_of opts ''blksize'' of
        None \<Rightarrow> negotiate_timeout opts [] s
      | Some b \<Rightarrow>
          (case Atoi b of
             Inl e \<Rightarrow> (Inl e, s)
           | Inr i \<Rightarrow>
               let s' = s\<lparr>blksize := (if i < 8 then 8 else if i > 65464 then 65464 else i)\<rparr>
               in negotiate_timeout opts [(''blksize'', Itoa (blksize s'))] s'))"

text \<open>The clamp of the specification, for comparison with the branches of the code.\<close>

definition clamp :: "int \<Rightarrow> int \<Rightarrow> int \<Rightarrow> int" where
  "clamp v lo hi = max lo (min hi v)"

subsection \<open>The transport and the backend\<close>

text \<open>
  \<^verbatim>\<open>&net.UDPAddr{}\<close> is the address whose fields all have their zero value.
\<close>

record UDPAddr =
  IP :: "8 word list"
  Port :: int
  Zone :: string

definition UDPAddr_zero :: UDPAddr where
  "UDPAddr_zero = \<lparr>IP = [], Port = 0, Zone = []\<rparr>"

text \<open>
  Everything the session does to the outside is an event of the trace, in the order
  of the calls: a packet handed to \<^verbatim>\<open>write\<close>, the result of a \<^verbatim>\<open>read\<close>, a call of
  the backend's \<^verbatim>\<open>ReadFile\<close> with its two arguments, the \<^verbatim>\<open>Close\<close> of the stream.
\<close>

datatype event =
    EvWrite packet
  | EvRead "error + packet"
  | EvReadFile UDPAddr string
  | EvClose

text \<open>
  The world of one session. \<open>clock\<close> is what \<^verbatim>\<open>time.Now()\<close> returns, in nanoseconds.
  \<open>incoming\<close> scripts the \<^verbatim>\<open>packetReader\<close>: the next call of \<^verbatim>\<open>read\<close> takes the
  head, lets that much time pass and returns that result (\<open>Inl\<close> an error,
  \<open>Inr\<close> a decoded packet); when the script is used up the peer is silent and
  \<^verbatim>\<open>read\<close> reports \<^verbatim>\<open>ErrTimeout\<close> after the time it was given. \<open>wresults\<close> scripts
  the \<^verbatim>\<open>packetWriter\<close> the same way (used up: every further write succeeds).
  Time passes in reads only.
  \<open>peer\<close> is the address of the peer the two are bound to; nothing in
  \<^verbatim>\<open>handler.go\<close> can read it, since neither \<^verbatim>\<open>serve\<close> nor the session is given it.
\<close>

record world =
  clock :: int
  incoming :: "(nat \<times> (error + packet)) list"
  wresults :: "error option list"
  trace :: "event list"
  peer :: UDPAddr

definition read :: "int \<Rightarrow> world \<Rightarrow> (error + packet) \<times> world" where
  "read d w =
     (case incoming w of
        [] \<Rightarrow> (Inl ErrTimeout, w\<lparr>clock := clock w + d, trace := trace w @ [EvRead (Inl ErrTimeout)]\<rparr>)
      | (dt, r) # rest \<Rightarrow>
          (r, w\<lparr>clock := clock w + int dt, incoming := rest, trace := trace w @ [EvRead r]\<rparr>))"

text \<open>\<^verbatim>\<open>write\<close> of the \<^verbatim>\<open>packetWriter\<close> (the name alone is a keyword of Isabelle).\<close>

definition write_packet :: "packet \<Rightarrow> world \<Rightarrow> error option \<times> world" where
  "write_packet p w =
     (case wresults w of
        [] \<Rightarrow> (None, w\<lparr>trace := trace w @ [EvWrite p]\<rparr>)
      | r # rs \<Rightarrow> (r, w\<lparr>wresults := rs, trace := trace w @ [EvWrite p]\<rparr>))"

definition writeError :: "16 word \<Rightarrow> string \<Rightarrow> world \<Rightarrow> error option \<times> world" where
  "writeError code message w = write_packet (ERROR code message) w"

text \<open>The packets written, in order: what the peer is sent.\<close>

fun writes :: "event list \<Rightarrow> packet list" where
  "writes [] = []"
| "writes (EvWrite p # es) = p # writes es"
| "writes (e # es) = writes es"

text \<open>
  The backend: \<^verbatim>\<open>Handler.ReadFile\<close> and the \<^verbatim>\<open>Read\<close> method of the stream it returns.
  \<open>'r\<close> is the state of the stream; \<open>Read h rc n\<close> is a read into a buffer of \<open>n\<close>
  bytes and returns the bytes read, the error (if any) and the stream afterwards.
  \<^verbatim>\<open>WriteFile\<close> is never called by \<^verbatim>\<open>handler.go\<close> and has no field here.
\<close>

record 'r handler =
  ReadFile :: "UDPAddr \<Rightarrow> string \<Rightarrow> error + 'r"
  Read :: "'r \<Rightarrow> nat \<Rightarrow> (8 word list \<times> error option) \<times> 'r"

subsection \<open>The reliable exchange: writeAndWaitForPacket\<close>

text \<open>
  The inner loop
  \<^verbatim>\<open>for ; now.Before(end); now = time.Now() { ... }\<close>
  with its three exits: the \<^verbatim>\<open>break\<close> on \<^verbatim>\<open>ErrTimeout\<close> and the end of the loop
  (\<open>TimedOut\<close>), the \<^verbatim>\<open>return nil, err\<close> after \<^verbatim>\<open>writeError\<close> (\<open>Failed\<close>), and the
  \<^verbatim>\<open>return p, nil\<close> of a packet the validator accepts (\<open>Accepted\<close>).
\<close>

datatype wait_result = Accepted packet | Failed error | TimedOut

function waitForPacket :: "(packet \<Rightarrow> bool) \<Rightarrow> int \<Rightarrow> world \<Rightarrow> wait_result \<times> world" where
  "waitForPacket v deadline w =
     (if clock w < deadline then
        (case read (deadline - clock w) w of
           (Inl err, w') \<Rightarrow>
             if err = ErrTimeout then (TimedOut, w')
             else (Failed err, snd (writeError 0 (Error err) w'))
         | (Inr q, w') \<Rightarrow>
             if v q then (Accepted q, w') else waitForPacket v deadline w')
      else (TimedOut, w))"
  by pat_completeness auto
termination
  by (relation "measure (\<lambda>(v, deadline, w). length (incoming w))")
     (auto simp: read_def split: list.splits prod.splits)

declare waitForPacket.simps [simp del]

text \<open>
  \<^verbatim>\<open>time.Duration\<close> is an \<^verbatim>\<open>int64\<close> count of nanoseconds and its arithmetic wraps:
  \<open>wrap64 x\<close> is the 64-bit two's-complement value of the exact result \<open>x\<close>.
\<close>

definition wrap64 :: "int \<Rightarrow> int" where
  "wrap64 x = (x + 9223372036854775808) mod 18446744073709551616 - 9223372036854775808"

text \<open>
  The outer loop \<^verbatim>\<open>for i := 0; i < 3; i++\<close>; the deadline of an attempt is
  \<^verbatim>\<open>time.Now()\<close> plus \<^verbatim>\<open>time.Duration(s.timeout) * time.Second\<close>, the wrapping
  product. (It is positive in every session that \<^verbatim>\<open>serve\<close> creates, where
  \<^verbatim>\<open>s.timeout\<close> is 3 or lies in 1..255; when the product wraps to a value that is
  not positive the loop below is never entered and nothing is read.)
\<close>

function writeAndWaitLoop ::
  "nat \<Rightarrow> session \<Rightarrow> packet \<Rightarrow> (packet \<Rightarrow> bool) \<Rightarrow> world \<Rightarrow> (error + packet) \<times> world" where
  "writeAndWaitLoop i s p v w =
     (if i < 3 then
        (case write_packet p w of
           (Some err, w1) \<Rightarrow> (Inl err, w1)
         | (None, w1) \<Rightarrow>
             (case waitForPacket v (clock w1 + wrap64 (timeout s * 1000000000)) w1 of
                (Accepted q, w2) \<Rightarrow> (Inr q, w2)
              | (Failed err, w2) \<Rightarrow> (Inl err, w2)
              | (TimedOut, w2) \<Rightarrow> writeAndWaitLoop (i + 1) s p v w2))
      else (Inl ErrTimeout, w))"
  by pat_completeness auto
termination
  by (relation "measure (\<lambda>(i, s, p, v, w). 3 - i)") auto

declare writeAndWaitLoop.simps [simp del]

definition writeAndWaitForPacket ::
  "session \<Rightarrow> packet \<Rightarrow> (packet \<Rightarrow> bool) \<Rightarrow> world \<Rightarrow> (error + packet) \<times> world" where
  "writeAndWaitForPacket s p v w = writeAndWaitLoop 0 s p v w"

definition ackValidator :: "16 word \<Rightarrow> packet \<Rightarrow> bool" where
  "ackValidator blockNr p = (case p of ACK n \<Rightarrow> n = blockNr | _ \<Rightarrow> False)"

subsection \<open>serveRRQ, serveWRQ and serve\<close>

text \<open>
  The functions of the session return nothing; what they did is the trace of the
  world they leave. A run ends by returning or by a Go panic, and the transfer loop
  has no bound of its own (it runs as long as the stream yields bytes and the peer
  acknowledges), so a run is an \<open>option\<close>: \<open>None\<close> is a loop that never ends.
  The parameter \<open>quote\<close> of \<^verbatim>\<open>serveRRQ\<close> and its callers stands for \<^verbatim>\<open>strconv.Quote\<close>,
  which the text of a negotiation error needs.
\<close>

datatype outcome = Returned | Panicked

text \<open>
  The loop \<^verbatim>\<open>for blockNr := uint16(1); ; blockNr++\<close> of \<^verbatim>\<open>serveRRQ\<close>, entered at
  \<open>blockNr\<close>; the counter is a \<^verbatim>\<open>uint16\<close> and wraps. The buffer has \<^verbatim>\<open>s.blksize\<close>
  bytes (512, or within 8..65464 after a negotiation). \<^verbatim>\<open>buf[:n]\<close> panics when the
  stream claims more bytes than the buffer has, and \<^verbatim>\<open>err.Error()\<close> panics when
  the stream returns no bytes and no error.
\<close>

partial_function (option) sendBlocks ::
  "'r handler \<Rightarrow> session \<Rightarrow> 16 word \<Rightarrow> 'r \<Rightarrow> world \<Rightarrow> (outcome \<times> world) option" where
  "sendBlocks h s blockNr rc w =
     (case Read h rc (nat (blksize s)) of
        ((data, err), rc') \<Rightarrow>
          if length data > nat (blksize s) then Some (Panicked, w)
          else if length data = 0 then
            (case err of
               Some e \<Rightarrow>
                 if e = EOF then Some (Returned, w)
                 else Some (Returned, snd (writeError 0 (Error e) w))
             | None \<Rightarrow> Some (Panicked, w))
          else
            (case writeAndWaitForPacket s (DATA blockNr data) (ackValidator blockNr) w of
               (Inl e, w') \<Rightarrow> Some (Returned, w')
             | (Inr q, w') \<Rightarrow> sendBlocks h s (blockNr + 1) rc' w'))"

declare sendBlocks.simps [code]

text \<open>The deferred \<^verbatim>\<open>rc.Close()\<close>: it runs when \<^verbatim>\<open>serveRRQ\<close> returns or panics.\<close>

definition deferred_Close :: "(outcome \<times> world) option \<Rightarrow> (outcome \<times> world) option" where
  "deferred_Close r = map_option (\<lambda>(out, w). (out, w\<lparr>trace := trace w @ [EvClose]\<rparr>)) r"

definition serveRRQ ::
  "(string \<Rightarrow> string) \<Rightarrow> 'r handler \<Rightarrow> session \<Rightarrow> string \<Rightarrow> options \<Rightarrow> world \<Rightarrow>
   (outcome \<times> world) option" where
  "serveRRQ quote h s filename opts w0 =
     (let w = w0\<lparr>trace := trace w0 @ [EvReadFile UDPAddr_zero filename]\<rparr> in
      case ReadFile h UDPAddr_zero filename of
        Inl err \<Rightarrow>
          Some (Returned,
            snd (writeError (if err = ErrNotExist then 1 else if err = ErrPermission then 2 else 0)
                   (Error err) w))
      | Inr rc \<Rightarrow>
          deferred_Close
            (if opts \<noteq> [] then
               (case negotiate opts s of
                  (Inl err, s') \<Rightarrow>
                    Some (Returned, snd (writeError 8 (NumError_Error quote err) w))
                | (Inr accepted, s') \<Rightarrow>
                    (case writeAndWaitForPacket s' (OACK accepted) (ackValidator 0) w of
                       (Inl err, w') \<Rightarrow> Some (Returned, w')
                     | (Inr q, w') \<Rightarrow> sendBlocks h s' 1 rc w'))
             else sendBlocks h s 1 rc w))"

definition serveWRQ :: "session \<Rightarrow> string \<Rightarrow> options \<Rightarrow> world \<Rightarrow> world" where
  "serveWRQ s filename opts w = snd (writeError 0 ''not supported'' w)"

text \<open>\<^verbatim>\<open>func (s *session) serve()\<close>.\<close>

definition session_serve ::
  "(string \<Rightarrow> string) \<Rightarrow> 'r handler \<Rightarrow> session \<Rightarrow> world \<Rightarrow> (outcome \<times> world) option" where
  "session_serve quote h s w =
     (case read 0 w of
        (Inl err, w') \<Rightarrow> Some (Returned, snd (writeError 0 (Error err) w'))
      | (Inr p, w') \<Rightarrow>
          (case p of
             RRQ filename opts \<Rightarrow> serveRRQ quote h s filename opts w'
           | WRQ filename opts \<Rightarrow> Some (Returned, serveWRQ s filename opts w')
           | _ \<Rightarrow> Some (Returned, snd (writeError 4 [] w'))))"

text \<open>\<^verbatim>\<open>func serve(r packetReader, w packetWriter, h Handler)\<close>.\<close>

definition serve ::
  "(string \<Rightarrow> string) \<Rightarrow> 'r handler \<Rightarrow> world \<Rightarrow> (outcome \<times> world) option" where
  "serve quote h w = session_serve quote h \<lparr>blksize = 512, timeout = 3\<rparr> w"

text \<open>
  A regular file as a stream: a read fills the buffer as far as bytes are left, and
  at the end of the file returns no bytes and \<^verbatim>\<open>io.EOF\<close>. The state is the rest of
  the file.
\<close>

definition file_Read :: "8 word list \<Rightarrow> nat \<Rightarrow> (8 word list \<times> error option) \<times> 8 word list" where
  "file_Read rest n = (if rest = [] then (([], Some EOF), []) else ((take n rest, None), drop n rest))"

subsection \<open>Vocabulary of the properties\<close>

text \<open>
  The events a run of \<^verbatim>\<open>writeAndWaitForPacket\<close> for packet \<open>p\<close> and validator \<open>v\<close>
  records while it keeps trying: a send of \<open>p\<close>, a read that timed out, a read of a
  packet the validator does not accept.
\<close>

fun retry_event :: "packet \<Rightarrow> (packet \<Rightarrow> bool) \<Rightarrow> event \<Rightarrow> bool" where
  "retry_event p v (EvWrite q) = (q = p)"
| "retry_event p v (EvRead (Inl e)) = (e = ErrTimeout)"
| "retry_event p v (EvRead (Inr q)) = (\<not> v q)"
| "retry_event p v _ = False"


text \<open>
  An error reports a missing file when \<^verbatim>\<open>errors.Is(err, fs.ErrNotExist)\<close> holds (what
  \<^verbatim>\<open>os.IsNotExist\<close> tests for the errors of package \<^verbatim>\<open>os\<close>): it is the sentinel, or
  the errno, or a path error around one of them. Likewise for a refused access.
\<close>

fun reports_not_exist :: "error \<Rightarrow> bool" where
  "reports_not_exist ErrNotExist = True"
| "reports_not_exist ENOENT = True"
| "reports_not_exist (PathError op path e) = reports_not_exist e"
| "reports_not_exist _ = False"

fun reports_permission :: "error \<Rightarrow> bool" where
  "reports_permission ErrPermission = True"
| "reports_permission EACCES = True"
| "reports_permission (PathError op path e) = reports_permission e"
| "reports_permission _ = False"

text \<open>The calls of \<^verbatim>\<open>ReadFile\<close> in a trace, with their arguments.\<close>

fun readfile_calls :: "event list \<Rightarrow> (UDPAddr \<times> string) list" where
  "readfile_calls [] = []"
| "readfile_calls (EvReadFile a f # es) = (a, f) # readfile_calls es"
| "readfile_calls (e # es) = readfile_calls es"

text \<open>
  What a transfer is expected to write for a stream of \<open>bytes\<close> read in full buffers of
  \<open>B\<close> bytes, from block number \<open>b\<close> on: one data packet per buffer. \<open>prompt_acks\<close>
  is the script of a peer that acknowledges \<open>n\<close> blocks in turn, each \<open>dt\<close> after the
  previous read.
\<close>

function data_blocks :: "nat \<Rightarrow> 16 word \<Rightarrow> 8 word list \<Rightarrow> packet list" where
  "data_blocks B b bytes =
     (if bytes = [] \<or> B = 0 then []
      else DATA b (take B bytes) # data_blocks B (b + 1) (drop B bytes))"
  by pat_completeness auto
termination
  by (relation "measure (\<lambda>(B, b, bytes). length bytes)") auto

declare data_blocks.simps [simp del]

fun prompt_acks :: "nat \<Rightarrow> 16 word \<Rightarrow> nat \<Rightarrow> (nat \<times> (error + packet)) list" where
  "prompt_acks dt b 0 = []"
| "prompt_acks dt b (Suc n) = (dt, Inr (ACK b)) # prompt_acks dt (b + 1) n"

subsection \<open>Example backend and peer\<close>

text \<open>
  A backend with three files and one it refuses to open, for the concrete runs below:
  \<^verbatim>\<open>block\<close> has exactly 512 bytes (one full block at the default block size),
  \<^verbatim>\<open>notes\<close> has 3 bytes, \<^verbatim>\<open>empty\<close> has none, \<^verbatim>\<open>secret\<close> may not be read, and no other
  file exists. The peer is at 192.0.2.7, port 49152; \<open>example_world script\<close> is the
  world in which it sends the datagrams of \<open>script\<close> and every write succeeds.
\<close>

definition example_ReadFile :: "UDPAddr \<Rightarrow> string \<Rightarrow> error + 8 word list" where
  "example_ReadFile a f =
     (if f = ''block'' then Inr (replicate 512 0)
      else if f = ''notes'' then Inr [104, 105, 10]
      else if f = ''empty'' then Inr []
      else if f = ''secret'' then Inl ErrPermission
      else Inl ErrNotExist)"

definition example_backend :: "8 word list handler" where
  "example_backend = \<lparr>ReadFile = example_ReadFile, Read = file_Read\<rparr>"

text \<open>
  A backend on a file system, as \<^verbatim>\<open>os.Open\<close> answers: the file \<^verbatim>\<open>notes\<close> is there,
  and for any other name the error is the path error around \<^verbatim>\<open>ENOENT\<close>.
\<close>

definition example_os_backend :: "8 word list handler" where
  "example_os_backend =
     \<lparr>ReadFile = (\<lambda>a f. if f = ''notes'' then Inr [104, 105, 10]
                          else Inl (PathError ''open'' f ENOENT)),
      Read = file_Read\<rparr>"

text \<open>
  A quoting function for the concrete runs: what \<^verbatim>\<open>strconv.Quote\<close> returns for a
  string of ASCII bytes (printable bytes stay, the double quote and the backslash
  are escaped, control bytes have their escapes). The runs below quote ASCII
  strings only; on other bytes it is not meant to agree with the library.
\<close>

definition hexdigit :: "nat \<Rightarrow> char" where
  "hexdigit n = ''0123456789abcdef'' ! n"

definition quote_byte :: "char \<Rightarrow> string" where
  "quote_byte c =
     (let n = (of_char c :: nat) in
      if n = 34 then [CHR 0x5C, CHR 0x22]
      else if n = 92 then [CHR 0x5C, CHR 0x5C]
      else if 32 \<le> n \<and> n < 127 then [c]
      else if n = 7 then [CHR 0x5C, CHR ''a'']
      else if n = 8 then [CHR 0x5C, CHR ''b'']
      else if n = 12 then [CHR 0x5C, CHR ''f'']
      else if n = 10 then [CHR 0x5C, CHR ''n'']
      else if n = 13 then [CHR 0x5C, CHR ''r'']
      else if n = 9 then [CHR 0x5C, CHR ''t'']
      else if n = 11 then [CHR 0x5C, CHR ''v'']
      else [CHR 0x5C, CHR ''x'', hexdigit (n div 16), hexdigit (n mod 16)])"

definition ascii_Quote :: "string \<Rightarrow> string" where
  "ascii_Quote s = [CHR 0x22] @ concat (map quote_byte s) @ [CHR 0x22]"

definition example_peer :: UDPAddr where
  "example_peer = \<lparr>IP = [192, 0, 2, 7], Port = 49152, Zone = []\<rparr>"

definition example_world :: "(nat \<times> (error + packet)) list \<Rightarrow> world" where
  "example_world script = \<lparr>clock = 0, incoming = script, wresults = [], trace = [], peer = example_peer\<rparr>"

section \<open>Properties\<close>

subsection \<open>Option negotiation\<close>

lemma clamp_blksize: "(if i < 8 then 8 else if i > 65464 then 65464 else i) = clamp i 8 65464"
  by (simp add: clamp_def)

lemma clamp_timeout: "(if i < 1 then 1 else if i > 255 then 255 else i) = clamp i 1 255"
  by (simp add: clamp_def)

lemma negotiate_timeout_ok:
  "map_of opts ''timeout'' = Some y \<Longrightarrow> Atoi y = Inr u \<Longrightarrow>
   negotiate_timeout opts oack s =
     (Inr (oack @ [(''timeout'', Itoa (clamp u 1 255))]), s\<lparr>timeout := clamp u 1 255\<rparr>)"
  by (simp add: negotiate_timeout_def Let_def clamp_timeout)

lemma negotiate_timeout_absent:
  "map_of opts ''timeout'' = None \<Longrightarrow> negotiate_timeout opts oack s = (Inr oack, s)"
  by (simp add: negotiate_timeout_def)

lemma negotiate_timeout_error:
  "map_of opts ''timeout'' = Some y \<Longrightarrow> Atoi y = Inl e \<Longrightarrow>
   negotiate_timeout opts oack s = (Inl e, s)"
  by (simp add: negotiate_timeout_def)

lemma negotiate_blksize_ok:
  "map_of opts ''blksize'' = Some x \<Longrightarrow> Atoi x = Inr v \<Longrightarrow>
   negotiate opts s =
     negotiate_timeout opts [(''blksize'', Itoa (clamp v 8 65464))] (s\<lparr>blksize := clamp v 8 65464\<rparr>)"
  by (simp add: negotiate_def Let_def clamp_blksize)

lemma negotiate_blksize_absent:
  "map_of opts ''blksize'' = None \<Longrightarrow> negotiate opts s = negotiate_timeout opts [] s"
  by (simp add: negotiate_def)

lemma negotiate_blksize_error:
  "map_of opts ''blksize'' = Some x \<Longrightarrow> Atoi x = Inl e \<Longrightarrow> negotiate opts s = (Inl e, s)"
  by (simp add: negotiate_def)

text \<open>Values of \<^verbatim>\<open>Atoi\<close> and \<^verbatim>\<open>Itoa\<close> at the strings the examples use.\<close>

lemma Atoi_examples:
  "Atoi ''70000'' = Inr 70000"
  "Atoi ''0'' = Inr 0"
  "Atoi ''8'' = Inr 8"
  "Atoi ''soon'' = Inl (NumError ''Atoi'' ''soon'' ErrSyntax)"
  "Atoi ''5'' = Inr 5"
  "Atoi ''100'' = Inr 100"
  "Atoi ''x'' = Inl (NumError ''Atoi'' ''x'' ErrSyntax)"
  by (simp_all add: Atoi_def digit_of_def maxUint64_def)

lemma Itoa_examples:
  "Itoa 65464 = ''65464''"
  "Itoa 1 = ''1''"
  "Itoa 8 = ''8''"
  by (simp_all add: Itoa_def digits.simps)

text \<open>
  Claim C2, as the code has it. The claim speaks of each option on its own; the code
  returns at the first value that does not parse, so what holds is this: whenever
  every \<^verbatim>\<open>blksize\<close> and \<^verbatim>\<open>timeout\<close> value that a request carries parses as an integer
  (a key may also be absent), \<^verbatim>\<open>negotiate\<close> succeeds; a requested \<^verbatim>\<open>blksize\<close> \<open>v\<close>
  is stored in the session as \<open>clamp v 8 65464\<close> and the accepted options carry the
  decimal text of that clamped value under \<^verbatim>\<open>blksize\<close>; a requested \<^verbatim>\<open>timeout\<close> \<open>u\<close>
  is stored as \<open>clamp u 1 255\<close> and echoed likewise.
\<close>

theorem negotiate_clamps:
  assumes blk: "\<forall>x. map_of opts ''blksize'' = Some x \<longrightarrow> (\<exists>v. Atoi x = Inr v)"
      and tmo: "\<forall>y. map_of opts ''timeout'' = Some y \<longrightarrow> (\<exists>u. Atoi y = Inr u)"
  shows "\<exists>accepted s'. negotiate opts s = (Inr accepted, s') \<and>
           (\<forall>x v. map_of opts ''blksize'' = Some x \<and> Atoi x = Inr v \<longrightarrow>
              blksize s' = clamp v 8 65464 \<and>
              map_of accepted ''blksize'' = Some (Itoa (clamp v 8 65464))) \<and>
           (\<forall>y u. map_of opts ''timeout'' = Some y \<and> Atoi y = Inr u \<longrightarrow>
              timeout s' = clamp u 1 255 \<and>
              map_of accepted ''timeout'' = Some (Itoa (clamp u 1 255)))"
proof (cases "map_of opts ''blksize''")
  case None
  note b = this
  show ?thesis
  proof (cases "map_of opts ''timeout''")
    case None
    with b show ?thesis
      by (simp add: negotiate_blksize_absent negotiate_timeout_absent)
  next
    case (Some y)
    with tmo obtain u where "Atoi y = Inr u" by blast
    with b Some show ?thesis
      by (simp add: negotiate_blksize_absent negotiate_timeout_ok)
  qed
next
  case (Some x)
  with blk obtain v where v: "Atoi x = Inr v" by blast
  note b = Some
  show ?thesis
  proof (cases "map_of opts ''timeout''")
    case None
    with b v show ?thesis
      by (simp add: negotiate_blksize_ok negotiate_timeout_absent)
  next
    case (Some y)
    with tmo obtain u where "Atoi y = Inr u" by blast
    with b v Some show ?thesis
      by (simp add: negotiate_blksize_ok negotiate_timeout_ok)
  qed
qed

text \<open>
  The theorem at a request for a block size of 70000 and a timeout of 0, on the
  fresh session of \<^verbatim>\<open>serve\<close>: both are clamped, and the clamped values are echoed.
\<close>

theorem negotiate_clamps_witness:
  "\<exists>accepted s'.
     negotiate [(''blksize'', ''70000''), (''timeout'', ''0'')] \<lparr>blksize = 512, timeout = 3\<rparr>
       = (Inr accepted, s') \<and>
     blksize s' = 65464 \<and> map_of accepted ''blksize'' = Some ''65464'' \<and>
     timeout s' = 1 \<and> map_of accepted ''timeout'' = Some ''1''"
proof -
  let ?opts = "[(''blksize'', ''70000''), (''timeout'', ''0'')]"
  have blk: "\<forall>x. map_of ?opts ''blksize'' = Some x \<longrightarrow> (\<exists>v. Atoi x = Inr v)"
    by (simp add: Atoi_examples)
  have tmo: "\<forall>y. map_of ?opts ''timeout'' = Some y \<longrightarrow> (\<exists>u. Atoi y = Inr u)"
    by (simp add: Atoi_examples)
  from negotiate_clamps [OF blk tmo, of "\<lparr>blksize = 512, timeout = 3\<rparr>"]
  obtain accepted s' where run: "negotiate ?opts \<lparr>blksize = 512, timeout = 3\<rparr> = (Inr accepted, s')"
    and b: "\<forall>x v. map_of ?opts ''blksize'' = Some x \<and> Atoi x = Inr v \<longrightarrow>
              blksize s' = clamp v 8 65464 \<and>
              map_of accepted ''blksize'' = Some (Itoa (clamp v 8 65464))"
    and t: "\<forall>y u. map_of ?opts ''timeout'' = Some y \<and> Atoi y = Inr u \<longrightarrow>
              timeout s' = clamp u 1 255 \<and>
              map_of accepted ''timeout'' = Some (Itoa (clamp u 1 255))"
    by blast
  from b [rule_format, of "''70000''" 70000]
  have "blksize s' = 65464" "map_of accepted ''blksize'' = Some ''65464''"
    by (simp_all add: Atoi_examples Itoa_examples clamp_def)
  moreover from t [rule_format, of "''0''" 0]
  have "timeout s' = 1" "map_of accepted ''timeout'' = Some ''1''"
    by (simp_all add: Atoi_examples Itoa_examples clamp_def)
  ultimately show ?thesis using run by blast
qed

text \<open>
  Claim C2 as stated fails. A timeout of 5 parses, but next to a block size that
  does not parse it is neither stored (the session keeps its timeout of 3) nor
  echoed; a block size of 100 parses, but next to a timeout that does not parse it
  is stored and not echoed, since the call returns the error and no options.
\<close>

theorem negotiate_clamps_counterexample:
  "Atoi ''5'' = Inr 5 \<and>
   negotiate [(''blksize'', ''x''), (''timeout'', ''5'')] \<lparr>blksize = 512, timeout = 3\<rparr>
     = (Inl (NumError ''Atoi'' ''x'' ErrSyntax), \<lparr>blksize = 512, timeout = 3\<rparr>) \<and>
   Atoi ''100'' = Inr 100 \<and>
   negotiate [(''blksize'', ''100''), (''timeout'', ''soon'')] \<lparr>blksize = 512, timeout = 3\<rparr>
     = (Inl (NumError ''Atoi'' ''soon'' ErrSyntax), \<lparr>blksize = 100, timeout = 3\<rparr>)"
  by (simp add: negotiate_def negotiate_timeout_def Atoi_examples)

text \<open>
  Claim C7. \<^verbatim>\<open>negotiate\<close> handles \<^verbatim>\<open>blksize\<close> before \<^verbatim>\<open>timeout\<close> and undoes nothing:
  when the \<^verbatim>\<open>blksize\<close> value parses to \<open>v\<close> and the \<^verbatim>\<open>timeout\<close> value does not
  parse, the call returns the error of the \<^verbatim>\<open>timeout\<close> value, and the session it
  leaves is the old one with the block size set to \<open>clamp v 8 65464\<close> (so its
  timeout is the one it had).
\<close>

theorem negotiate_no_rollback:
  assumes "map_of opts ''blksize'' = Some x" and "Atoi x = Inr v"
      and "map_of opts ''timeout'' = Some y" and "Atoi y = Inl e"
  shows "negotiate opts s = (Inl e, s\<lparr>blksize := clamp v 8 65464\<rparr>)"
  using assms by (simp add: negotiate_blksize_ok negotiate_timeout_error)

theorem negotiate_no_rollback_witness:
  "negotiate [(''blksize'', ''70000''), (''timeout'', ''soon'')] \<lparr>blksize = 512, timeout = 3\<rparr>
     = (Inl (NumError ''Atoi'' ''soon'' ErrSyntax), \<lparr>blksize = 65464, timeout = 3\<rparr>)"
  using negotiate_no_rollback [of "[(''blksize'', ''70000''), (''timeout'', ''soon'')]"
      "''70000''" 70000 "''soon''" "NumError ''Atoi'' ''soon'' ErrSyntax"
      "\<lparr>blksize = 512, timeout = 3\<rparr>"]
  by (simp add: Atoi_examples clamp_def)

subsection \<open>The reliable exchange\<close>

lemma wrap64_timeout:
  "0 < t \<and> t \<le> 9223372036 \<Longrightarrow> wrap64 (t * 1000000000) = t * 1000000000"
  by (simp add: wrap64_def)

lemma wrap64_default_timeout [simp]: "wrap64 3000000000 = 3000000000"
  by (simp add: wrap64_def)

lemma writes_append: "writes (xs @ ys) = writes xs @ writes ys"
  by (induction xs rule: writes.induct) simp_all

lemma read_trace: "read d w = (x, w') \<Longrightarrow> trace w' = trace w @ [EvRead x]"
  by (auto simp: read_def split: list.splits)

lemma read_frame: "read d w = (x, w') \<Longrightarrow> wresults w' = wresults w \<and> peer w' = peer w"
  by (auto simp: read_def split: list.splits)

lemma write_trace: "write_packet p w = (x, w') \<Longrightarrow> trace w' = trace w @ [EvWrite p]"
  by (auto simp: write_packet_def split: list.splits)

lemma write_frame:
  "write_packet p w = (x, w') \<Longrightarrow> incoming w' = incoming w \<and> clock w' = clock w \<and> peer w' = peer w"
  by (auto simp: write_packet_def split: list.splits)

lemma writeError_trace: "trace (snd (writeError c m w)) = trace w @ [EvWrite (ERROR c m)]"
  by (cases "write_packet (ERROR c m) w") (simp add: writeError_def write_trace)

lemma writeError_frame:
  "incoming (snd (writeError c m w)) = incoming w \<and> clock (snd (writeError c m w)) = clock w
   \<and> peer (snd (writeError c m w)) = peer w"
  by (cases "write_packet (ERROR c m) w") (simp add: writeError_def write_frame)

lemma waitForPacket_shape:
  "waitForPacket v d w = (r, w') \<Longrightarrow>
   \<exists>pre. list_all (retry_event p v) pre \<and> writes pre = [] \<and>
     (case r of
        TimedOut \<Rightarrow> trace w' = trace w @ pre
      | Accepted q \<Rightarrow> v q \<and> trace w' = trace w @ pre @ [EvRead (Inr q)]
      | Failed e \<Rightarrow> e \<noteq> ErrTimeout \<and>
          trace w' = trace w @ pre @ [EvRead (Inl e), EvWrite (ERROR 0 (Error e))])"
proof (induction v d w arbitrary: r w' rule: waitForPacket.induct)
  case (1 v deadline w)
  show ?case
  proof (cases "clock w < deadline")
    case False
    with "1.prems" have "r = TimedOut" "w' = w"
      by (simp_all add: waitForPacket.simps [of v deadline w])
    then show ?thesis by (intro exI [of _ "[]"]) simp
  next
    case True
    obtain x w1 where rd: "read (deadline - clock w) w = (x, w1)"
      by (cases "read (deadline - clock w) w")
    have tr1: "trace w1 = trace w @ [EvRead x]" using rd by (rule read_trace)
    show ?thesis
    proof (cases x)
      case (Inl e)
      show ?thesis
      proof (cases "e = ErrTimeout")
        case True
        with \<open>clock w < deadline\<close> rd Inl "1.prems" have "r = TimedOut" "w' = w1"
          by (simp_all add: waitForPacket.simps [of v deadline w])
        with tr1 Inl True show ?thesis
          by (intro exI [of _ "[EvRead (Inl ErrTimeout)]"]) simp
      next
        case False
        with \<open>clock w < deadline\<close> rd Inl "1.prems"
        have "r = Failed e" "w' = snd (writeError 0 (Error e) w1)"
          by (simp_all add: waitForPacket.simps [of v deadline w])
        with tr1 Inl False show ?thesis
          by (intro exI [of _ "[]"]) (simp add: writeError_trace)
      qed
    next
      case (Inr q)
      show ?thesis
      proof (cases "v q")
        case True
        with \<open>clock w < deadline\<close> rd Inr "1.prems" have "r = Accepted q" "w' = w1"
          by (simp_all add: waitForPacket.simps [of v deadline w])
        with tr1 Inr True show ?thesis
          by (intro exI [of _ "[]"]) simp
      next
        case False
        with \<open>clock w < deadline\<close> rd Inr "1.prems" have rec: "waitForPacket v deadline w1 = (r, w')"
          by (simp add: waitForPacket.simps [of v deadline w])
        from "1.IH" [OF \<open>clock w < deadline\<close> rd [symmetric] Inr False rec]
        obtain pre where pre: "list_all (retry_event p v) pre" "writes pre = []"
          "(case r of
              TimedOut \<Rightarrow> trace w' = trace w1 @ pre
            | Accepted q \<Rightarrow> v q \<and> trace w' = trace w1 @ pre @ [EvRead (Inr q)]
            | Failed e \<Rightarrow> e \<noteq> ErrTimeout \<and>
                trace w' = trace w1 @ pre @ [EvRead (Inl e), EvWrite (ERROR 0 (Error e))])"
          by blast
        with tr1 Inr False show ?thesis
          by (intro exI [of _ "EvRead (Inr q) # pre"]) (simp split: wait_result.splits)
      qed
    qed
  qed
qed

lemma writeAndWaitLoop_shape:
  "writeAndWaitLoop i s p v w = (r, w') \<Longrightarrow>
   \<exists>pre k. list_all (retry_event p v) pre \<and> writes pre = replicate k p \<and> k \<le> 3 - i \<and>
     ((\<exists>q. r = Inr q \<and> v q \<and> trace w' = trace w @ pre @ [EvRead (Inr q)]) \<or>
      (\<exists>e. r = Inl e \<and> e \<noteq> ErrTimeout \<and>
           trace w' = trace w @ pre @ [EvRead (Inl e), EvWrite (ERROR 0 (Error e))]) \<or>
      (\<exists>e. r = Inl e \<and> trace w' = trace w @ pre))"
proof (induction i s p v w arbitrary: r w' rule: writeAndWaitLoop.induct)
  case (1 i s p v w)
  show ?case
  proof (cases "i < 3")
    case False
    with "1.prems" have "r = Inl ErrTimeout" "w' = w"
      by (simp_all add: writeAndWaitLoop.simps [of i s p v w])
    then show ?thesis by (intro exI [of _ "[]"] exI [of _ 0]) simp
  next
    case True
    obtain x w1 where wr: "write_packet p w = (x, w1)" by (cases "write_packet p w")
    have tr1: "trace w1 = trace w @ [EvWrite p]" using wr by (rule write_trace)
    show ?thesis
    proof (cases x)
      case (Some e)
      with True wr "1.prems" have "r = Inl e" "w' = w1"
        by (simp_all add: writeAndWaitLoop.simps [of i s p v w])
      with tr1 True show ?thesis
        by (intro exI [of _ "[EvWrite p]"] exI [of _ 1]) simp
    next
      case None
      obtain y w2 where wt: "waitForPacket v (clock w1 + wrap64 (timeout s * 1000000000)) w1 = (y, w2)"
        by (cases "waitForPacket v (clock w1 + wrap64 (timeout s * 1000000000)) w1")
      from waitForPacket_shape [OF wt, of p]
      obtain pre where pre: "list_all (retry_event p v) pre" "writes pre = []"
        "(case y of
            TimedOut \<Rightarrow> trace w2 = trace w1 @ pre
          | Accepted q \<Rightarrow> v q \<and> trace w2 = trace w1 @ pre @ [EvRead (Inr q)]
          | Failed e \<Rightarrow> e \<noteq> ErrTimeout \<and>
              trace w2 = trace w1 @ pre @ [EvRead (Inl e), EvWrite (ERROR 0 (Error e))])"
        by blast
      show ?thesis
      proof (cases y)
        case (Accepted q)
        with True wr None wt "1.prems" have "r = Inr q" "w' = w2"
          by (simp_all add: writeAndWaitLoop.simps [of i s p v w])
        with pre Accepted tr1 True show ?thesis
          by (intro exI [of _ "EvWrite p # pre"] exI [of _ 1]) simp
      next
        case (Failed e)
        with True wr None wt "1.prems" have "r = Inl e" "w' = w2"
          by (simp_all add: writeAndWaitLoop.simps [of i s p v w])
        with pre Failed tr1 True show ?thesis
          by (intro exI [of _ "EvWrite p # pre"] exI [of _ 1]) simp
      next
        case TimedOut
        with True wr None wt "1.prems" have rec: "writeAndWaitLoop (i + 1) s p v w2 = (r, w')"
          by (simp add: writeAndWaitLoop.simps [of i s p v w])
        from "1.IH" [OF True wr [symmetric] None wt [symmetric] TimedOut rec]
        obtain pre' k where pre': "list_all (retry_event p v) pre'" "writes pre' = replicate k p"
          "k \<le> 3 - (i + 1)"
          "(\<exists>q. r = Inr q \<and> v q \<and> trace w' = trace w2 @ pre' @ [EvRead (Inr q)]) \<or>
           (\<exists>e. r = Inl e \<and> e \<noteq> ErrTimeout \<and>
                trace w' = trace w2 @ pre' @ [EvRead (Inl e), EvWrite (ERROR 0 (Error e))]) \<or>
           (\<exists>e. r = Inl e \<and> trace w' = trace w2 @ pre')"
          by blast
        have tr2: "trace w2 = trace w @ EvWrite p # pre" using pre(3) TimedOut tr1 by simp
        have a: "list_all (retry_event p v) (EvWrite p # pre @ pre')"
          using pre(1) pre'(1) by simp
        have b: "writes (EvWrite p # pre @ pre') = replicate (Suc k) p"
          using pre(2) pre'(2) by (simp add: writes_append)
        have c: "Suc k \<le> 3 - i" using pre'(3) True by simp
        from pre'(4) tr2 have d:
          "(\<exists>q. r = Inr q \<and> v q \<and> trace w' = trace w @ (EvWrite p # pre @ pre') @ [EvRead (Inr q)]) \<or>
           (\<exists>e. r = Inl e \<and> e \<noteq> ErrTimeout \<and>
                trace w' = trace w @ (EvWrite p # pre @ pre') @ [EvRead (Inl e), EvWrite (ERROR 0 (Error e))]) \<or>
           (\<exists>e. r = Inl e \<and> trace w' = trace w @ (EvWrite p # pre @ pre'))"
          by auto
        from a b c d show ?thesis by blast
      qed
    qed
  qed
qed






text \<open>
  Claim C8. When a read of a call of \<^verbatim>\<open>writeAndWaitForPacket\<close> fails with an error
  \<open>e\<close> other than \<^verbatim>\<open>ErrTimeout\<close>, the call returns \<open>e\<close>, and what the call recorded
  ends with that read followed by the write of the error packet with code 0 and the
  text of \<open>e\<close>: nothing is sent after it. Before the failing read the call has only
  sent \<open>p\<close> (at most 3 times), seen timeouts and discarded packets.
\<close>

theorem writeAndWaitForPacket_read_failure:
  assumes run: "writeAndWaitForPacket s p v w = (r, w')"
      and new: "trace w' = trace w @ new"
      and failed: "EvRead (Inl e) \<in> set new" and e: "e \<noteq> ErrTimeout"
  shows "r = Inl e \<and>
         (\<exists>pre. new = pre @ [EvRead (Inl e), EvWrite (ERROR 0 (Error e))] \<and>
                list_all (retry_event p v) pre \<and> length (writes pre) \<le> 3)"
proof -
  from run have "writeAndWaitLoop 0 s p v w = (r, w')" by (simp add: writeAndWaitForPacket_def)
  from writeAndWaitLoop_shape [OF this]
  obtain pre k where pre: "list_all (retry_event p v) pre" "writes pre = replicate k p" "k \<le> 3"
    and tails:
    "(\<exists>q. r = Inr q \<and> v q \<and> trace w' = trace w @ pre @ [EvRead (Inr q)]) \<or>
     (\<exists>e. r = Inl e \<and> e \<noteq> ErrTimeout \<and>
          trace w' = trace w @ pre @ [EvRead (Inl e), EvWrite (ERROR 0 (Error e))]) \<or>
     (\<exists>e. r = Inl e \<and> trace w' = trace w @ pre)"
    by auto
  have notpre: "EvRead (Inl e) \<notin> set pre"
  proof
    assume "EvRead (Inl e) \<in> set pre"
    with pre(1) have "retry_event p v (EvRead (Inl e))" by (auto simp: list_all_iff)
    with e show False by simp
  qed
  from tails show ?thesis
  proof (elim disjE exE conjE)
    fix q assume "trace w' = trace w @ pre @ [EvRead (Inr q)]"
    with new have "new = pre @ [EvRead (Inr q)]" by simp
    with failed notpre show ?thesis by simp
  next
    fix e' assume r: "r = Inl e'" and "trace w' = trace w @ pre @ [EvRead (Inl e'), EvWrite (ERROR 0 (Error e'))]"
    with new have n: "new = pre @ [EvRead (Inl e'), EvWrite (ERROR 0 (Error e'))]" by simp
    with failed notpre have "e' = e" by simp
    with r n pre show ?thesis by simp
  next
    fix e' assume "trace w' = trace w @ pre"
    with new have "new = pre" by simp
    with failed notpre show ?thesis by simp
  qed
qed

text \<open>The theorem on a peer whose second datagram cannot be decoded.\<close>

theorem writeAndWaitForPacket_read_failure_witness:
  "EvRead (Inl (OtherError ''short packet'')) \<in> set (trace (snd
     (writeAndWaitForPacket \<lparr>blksize = 512, timeout = 3\<rparr> (DATA 1 [7]) (ackValidator 1)
       \<lparr>clock = 0, incoming = [(5, Inr (ACK 0)), (6, Inl (OtherError ''short packet''))],
        wresults = [], trace = [], peer = UDPAddr_zero\<rparr>))) \<and>
   fst (writeAndWaitForPacket \<lparr>blksize = 512, timeout = 3\<rparr> (DATA 1 [7]) (ackValidator 1)
       \<lparr>clock = 0, incoming = [(5, Inr (ACK 0)), (6, Inl (OtherError ''short packet''))],
        wresults = [], trace = [], peer = UDPAddr_zero\<rparr>) = Inl (OtherError ''short packet'') \<and>
   writes (trace (snd
     (writeAndWaitForPacket \<lparr>blksize = 512, timeout = 3\<rparr> (DATA 1 [7]) (ackValidator 1)
       \<lparr>clock = 0, incoming = [(5, Inr (ACK 0)), (6, Inl (OtherError ''short packet''))],
        wresults = [], trace = [], peer = UDPAddr_zero\<rparr>))) = [DATA 1 [7], ERROR 0 ''short packet'']"
proof -
  let ?w = "\<lparr>clock = 0, incoming = [(5, Inr (ACK 0)), (6, Inl (OtherError ''short packet''))],
        wresults = [], trace = [], peer = UDPAddr_zero\<rparr>"
  let ?R = "writeAndWaitForPacket \<lparr>blksize = 512, timeout = 3\<rparr> (DATA 1 [7]) (ackValidator 1) ?w"
  have tr: "trace (snd ?R) = [EvWrite (DATA 1 [7]), EvRead (Inr (ACK 0)),
      EvRead (Inl (OtherError ''short packet'')), EvWrite (ERROR 0 ''short packet'')]"
    by (simp add: writeAndWaitForPacket_def writeAndWaitLoop.simps waitForPacket.simps read_def
        write_packet_def writeError_def ackValidator_def)
  have mem: "EvRead (Inl (OtherError ''short packet'')) \<in> set (trace (snd ?R))"
    by (simp add: tr)
  from writeAndWaitForPacket_read_failure [of "\<lparr>blksize = 512, timeout = 3\<rparr>" "DATA 1 [7]" "ackValidator 1" ?w
      "fst ?R" "snd ?R" "trace (snd ?R)" "OtherError ''short packet''"] mem
  have "fst ?R = Inl (OtherError ''short packet'')" by simp
  with mem tr show ?thesis by simp
qed



subsection \<open>The session: serve\<close>

lemma example_world_simps:
  "incoming (example_world script) = script"
  "trace (example_world script) = []"
  "peer (example_world script) = example_peer"
  by (simp_all add: example_world_def)

lemma example_backend_simps:
  "ReadFile example_backend a ''secret'' = Inl ErrPermission"
  "ReadFile example_backend a ''notes'' = Inr [104, 105, 10]"
  by (simp_all add: example_backend_def example_ReadFile_def)

lemma read_Cons:
  "incoming w = (dt, x) # rest \<Longrightarrow>
   read d w = (x, w\<lparr>clock := clock w + int dt, incoming := rest, trace := trace w @ [EvRead x]\<rparr>)"
  by (simp add: read_def)

lemma readfile_calls_append: "readfile_calls (xs @ ys) = readfile_calls xs @ readfile_calls ys"
  by (induction xs rule: readfile_calls.induct) simp_all

lemma readfile_calls_retry: "list_all (retry_event p v) xs \<Longrightarrow> readfile_calls xs = []"
proof (induction xs)
  case Nil
  then show ?case by simp
next
  case (Cons ev xs)
  then show ?case by (cases ev) simp_all
qed

lemma writeAndWaitForPacket_readfile_calls:
  assumes "writeAndWaitForPacket s p v w = (r, w')"
  shows "readfile_calls (trace w') = readfile_calls (trace w)"
proof -
  from assms have "writeAndWaitLoop 0 s p v w = (r, w')" by (simp add: writeAndWaitForPacket_def)
  from writeAndWaitLoop_shape [OF this]
  obtain pre tl where "list_all (retry_event p v) pre" "trace w' = trace w @ pre @ tl"
    "readfile_calls tl = []"
    by fastforce
  then show ?thesis by (simp add: readfile_calls_append readfile_calls_retry)
qed

lemma sendBlocks_readfile_calls:
  assumes "sendBlocks h s blockNr rc w = Some y"
  shows "readfile_calls (trace (snd y)) = readfile_calls (trace w)"
proof (rule sendBlocks.raw_induct
    [where P = "\<lambda>h s blockNr rc w y. readfile_calls (trace (snd y)) = readfile_calls (trace w)",
      OF _ assms])
  fix f h s blockNr rc w y
  assume IH: "\<And>h s blockNr rc w y. f h s blockNr rc w = Some y \<Longrightarrow>
      readfile_calls (trace (snd y)) = readfile_calls (trace w)"
    and body: "(case Read h rc (nat (blksize s)) of
        ((data, err), rc') \<Rightarrow>
          if length data > nat (blksize s) then Some (Panicked, w)
          else if length data = 0 then
            (case err of
               Some e \<Rightarrow>
                 if e = EOF then Some (Returned, w)
                 else Some (Returned, snd (writeError 0 (Error e) w))
             | None \<Rightarrow> Some (Panicked, w))
          else
            (case writeAndWaitForPacket s (DATA blockNr data) (ackValidator blockNr) w of
               (Inl e, w') \<Rightarrow> Some (Returned, w')
             | (Inr q, w') \<Rightarrow> f h s (blockNr + 1) rc' w')) = Some y"
  from body show "readfile_calls (trace (snd y)) = readfile_calls (trace w)"
    by (auto split: prod.splits if_splits option.splits sum.splits
        simp: writeError_trace readfile_calls_append
        dest!: writeAndWaitForPacket_readfile_calls IH)
qed

lemma serveRRQ_readfile_calls:
  assumes "serveRRQ quote h s filename opts w = Some y"
  shows "readfile_calls (trace (snd y)) = readfile_calls (trace w) @ [(UDPAddr_zero, filename)]"
  using assms
  by (auto simp: serveRRQ_def Let_def deferred_Close_def writeError_trace readfile_calls_append
      split: sum.splits if_splits prod.splits
      dest!: writeAndWaitForPacket_readfile_calls sendBlocks_readfile_calls)

text \<open>
  What the transfer loop sends for a regular file and a peer that acknowledges every
  block at once: the blocks of \<open>data_blocks\<close>, that is
  \<open>(L + B - 1) div B\<close> of them for a file of \<open>L\<close> bytes, numbered upwards from the
  first (in 16 bits), and when \<open>B\<close> divides \<open>L\<close> every one of them is full.
\<close>

lemma writeAndWaitForPacket_prompt_ack:
  assumes "0 < timeout s \<and> timeout s \<le> 9223372036"
      and "wresults w = []" and "incoming w = (dt, Inr (ACK b)) # rest"
  shows "writeAndWaitForPacket s p (ackValidator b) w =
           (Inr (ACK b),
            w\<lparr>clock := clock w + int dt, incoming := rest,
              trace := trace w @ [EvWrite p, EvRead (Inr (ACK b))]\<rparr>)"
  using assms
  by (simp add: writeAndWaitForPacket_def writeAndWaitLoop.simps [of 0] write_packet_def
      wrap64_timeout
      waitForPacket.simps [of _ _ "w\<lparr>trace := trace w @ [EvWrite p]\<rparr>"] read_def ackValidator_def)

lemma data_blocks_Nil: "data_blocks B b [] = []"
  by (simp add: data_blocks.simps)

lemma data_blocks_Cons:
  "bytes \<noteq> [] \<Longrightarrow> 0 < B \<Longrightarrow>
   data_blocks B b bytes = DATA b (take B bytes) # data_blocks B (b + 1) (drop B bytes)"
  by (subst data_blocks.simps) simp

lemma sendBlocks_file:
  assumes "0 < blksize s" and "0 < timeout s \<and> timeout s \<le> 9223372036"
      and "Read h = file_Read"
  shows "wresults w = [] \<Longrightarrow>
         incoming w = prompt_acks dt b (length (data_blocks (nat (blksize s)) b bytes)) @ rest \<Longrightarrow>
         \<exists>w'. sendBlocks h s b bytes w = Some (Returned, w') \<and>
              writes (trace w') = writes (trace w) @ data_blocks (nat (blksize s)) b bytes \<and>
              incoming w' = rest \<and> wresults w' = []"
proof (induction "nat (blksize s)" b bytes arbitrary: w rule: data_blocks.induct)
  case (1 b bytes)
  let ?B = "nat (blksize s)"
  have B: "0 < ?B" using assms(1) by simp
  show ?case
  proof (cases "bytes = []")
    case True
    then show ?thesis
      using "1.prems" assms(3)
      by (subst sendBlocks.simps) (simp add: file_Read_def data_blocks_Nil)
  next
    case False
    let ?p = "DATA b (take ?B bytes)"
    let ?w1 = "w\<lparr>clock := clock w + int dt,
                 incoming := prompt_acks dt (b + 1) (length (data_blocks ?B (b + 1) (drop ?B bytes))) @ rest,
                 trace := trace w @ [EvWrite ?p, EvRead (Inr (ACK b))]\<rparr>"
    have blocks: "data_blocks ?B b bytes = ?p # data_blocks ?B (b + 1) (drop ?B bytes)"
      using False B by (rule data_blocks_Cons)
    have inc: "incoming w = (dt, Inr (ACK b)) #
        prompt_acks dt (b + 1) (length (data_blocks ?B (b + 1) (drop ?B bytes))) @ rest"
      using "1.prems"(2) blocks by simp
    have ex: "writeAndWaitForPacket s ?p (ackValidator b) w = (Inr (ACK b), ?w1)"
      using writeAndWaitForPacket_prompt_ack [OF assms(2) "1.prems"(1) inc] .
    have "\<exists>w'. sendBlocks h s (b + 1) (drop ?B bytes) ?w1 = Some (Returned, w') \<and>
              writes (trace w') = writes (trace ?w1) @ data_blocks ?B (b + 1) (drop ?B bytes) \<and>
              incoming w' = rest \<and> wresults w' = []"
      using False B "1.prems"(1) by (intro "1.hyps") simp_all
    then obtain w' where w': "sendBlocks h s (b + 1) (drop ?B bytes) ?w1 = Some (Returned, w')"
      "writes (trace w') = writes (trace ?w1) @ data_blocks ?B (b + 1) (drop ?B bytes)"
      "incoming w' = rest" "wresults w' = []"
      by blast
    have "sendBlocks h s b bytes w = Some (Returned, w')"
      using False B assms(3) ex w'(1)
      by (subst sendBlocks.simps) (simp add: file_Read_def)
    moreover have "writes (trace w') = writes (trace w) @ data_blocks ?B b bytes"
      using w'(2) blocks by (simp add: writes_append)
    ultimately show ?thesis using w'(3,4) by blast
  qed
qed

lemma length_data_blocks:
  "0 < B \<Longrightarrow> length (data_blocks B b bytes) = (length bytes + B - 1) div B"
proof (induction B b bytes rule: data_blocks.induct)
  case (1 B b bytes)
  show ?case
  proof (cases "bytes = []")
    case True
    with "1.prems" show ?thesis by (simp add: data_blocks_Nil)
  next
    case False
    with "1.prems" have "length (data_blocks B b bytes) = Suc ((length bytes - B + B - 1) div B)"
      using "1.IH" by (simp add: data_blocks_Cons)
    also have "\<dots> = (length bytes + B - 1) div B"
    proof (cases "B \<le> length bytes")
      case True
      then have e: "length bytes + B - 1 = (length bytes - 1) + B" using "1.prems" by simp
      have "(length bytes - 1 + B) div B = Suc ((length bytes - 1) div B)"
        using "1.prems" div_add_self2 [of B "length bytes - 1"] by simp
      with e True show ?thesis by simp
    next
      case False
      with \<open>bytes \<noteq> []\<close> "1.prems" have "(length bytes + B - 1) div B = 1"
        by (intro div_nat_eqI) (cases bytes, simp_all)
      with False show ?thesis by simp
    qed
    finally show ?thesis .
  qed
qed

lemma data_blocks_full:
  "0 < B \<Longrightarrow> B dvd length bytes \<Longrightarrow> p \<in> set (data_blocks B b bytes) \<Longrightarrow>
   \<exists>n d. p = DATA n d \<and> length d = B"
proof (induction B b bytes rule: data_blocks.induct)
  case (1 B b bytes)
  show ?case
  proof (cases "bytes = []")
    case True
    with "1.prems" show ?thesis by (simp add: data_blocks_Nil)
  next
    case False
    then have "0 < length bytes" by simp
    with "1.prems"(2) have le: "B \<le> length bytes"
      by (rule dvd_imp_le)
    with "1.prems"(2) have dv: "B dvd length (drop B bytes)"
      by (simp add: dvd_diff_nat)
    from "1.prems"(3) False "1.prems"(1)
    have "p = DATA b (take B bytes) \<or> p \<in> set (data_blocks B (b + 1) (drop B bytes))"
      by (simp add: data_blocks_Cons)
    then show ?thesis
    proof
      assume "p = DATA b (take B bytes)"
      with le show ?thesis by simp
    next
      assume "p \<in> set (data_blocks B (b + 1) (drop B bytes))"
      with "1.IH" False "1.prems"(1) dv show ?thesis by simp
    qed
  qed
qed

lemma serve_file_transfer:
  assumes "incoming w = (dt0, Inr (RRQ filename [])) #
             prompt_acks dt 1 (length (data_blocks 512 1 bytes)) @ rest"
      and "wresults w = []"
      and "ReadFile h UDPAddr_zero filename = Inr bytes" and "Read h = file_Read"
  shows "\<exists>w'. serve quote h w = Some (Returned, w') \<and>
           writes (trace w') = writes (trace w) @ data_blocks 512 1 bytes \<and>
           incoming w' = rest"
proof -
  let ?s = "\<lparr>blksize = 512, timeout = 3\<rparr>"
  let ?w1 = "w\<lparr>clock := clock w + int dt0,
               incoming := prompt_acks dt 1 (length (data_blocks 512 1 bytes)) @ rest,
               trace := trace w @ [EvRead (Inr (RRQ filename [])), EvReadFile UDPAddr_zero filename]\<rparr>"
  from sendBlocks_file [of ?s h ?w1 dt 1 bytes rest] assms(2,4)
  obtain w' where w': "sendBlocks h ?s 1 bytes ?w1 = Some (Returned, w')"
    "writes (trace w') = writes (trace ?w1) @ data_blocks 512 1 bytes" "incoming w' = rest"
    by auto
  from assms(1,3) w'(1)
  have "serve quote h w = Some (Returned, w'\<lparr>trace := trace w' @ [EvClose]\<rparr>)"
    by (simp add: serve_def session_serve_def read_Cons serveRRQ_def deferred_Close_def)
  with w'(2,3) show ?thesis by (simp add: writes_append)
qed

text \<open>
  Claim C1, at the inputs where the code departs from it. The claim asks for
  \<open>L div B + 1\<close> data blocks, the last one empty when \<open>B\<close> divides \<open>L\<close>. For the
  file of 512 bytes at the default block size of 512, with a peer that acknowledges
  every block, the session writes the one full block and returns: the loop of
  \<^verbatim>\<open>serveRRQ\<close> leaves on \<^verbatim>\<open>n == 0\<close> with \<^verbatim>\<open>io.EOF\<close> and no block shorter than the
  block size is ever sent. For the empty file it writes nothing at all.
\<close>

theorem serve_exact_multiple_no_final_block:
  "map_option (writes \<circ> trace \<circ> snd)
     (serve quote example_backend
        (example_world [(0, Inr (RRQ ''block'' [])), (1000, Inr (ACK 1)), (1000, Inr (ACK 2))]))
   = Some [DATA 1 (replicate 512 0)] \<and>
   map_option (writes \<circ> trace \<circ> snd)
     (serve quote example_backend (example_world [(0, Inr (RRQ ''empty'' [])), (1000, Inr (ACK 1))]))
   = Some []"
  by (simp add: serve_def session_serve_def read_def serveRRQ_def example_backend_def
      example_ReadFile_def example_world_def sendBlocks.simps file_Read_def
      writeAndWaitForPacket_def writeAndWaitLoop.simps waitForPacket.simps write_packet_def
      writeError_def ackValidator_def deferred_Close_def)

text \<open>
  Claim C4, as the code has it. The code tells the errors of the backend apart by
  identity with the two sentinels. A read request whose file the backend cannot
  resolve is answered with one error packet and nothing else: after the request is
  read and \<^verbatim>\<open>ReadFile\<close> has returned the error \<open>e\<close>, the session writes
  \<open>ERROR code (Error e)\<close> and returns, with no further read; the code is 1 when \<open>e\<close>
  is the value \<^verbatim>\<open>os.ErrNotExist\<close> itself, 2 when it is \<^verbatim>\<open>os.ErrPermission\<close> itself, and
  0 for any other error value.
\<close>

theorem serve_RRQ_backend_error:
  assumes "incoming w = (dt, Inr (RRQ filename opts)) # rest"
      and "ReadFile h UDPAddr_zero filename = Inl e"
  shows "\<exists>w' code. serve quote h w = Some (Returned, w') \<and>
           trace w' = trace w @ [EvRead (Inr (RRQ filename opts)),
                                 EvReadFile UDPAddr_zero filename,
                                 EvWrite (ERROR code (Error e))] \<and>
           incoming w' = rest \<and>
           (e = ErrNotExist \<longrightarrow> code = 1) \<and>
           (e = ErrPermission \<longrightarrow> code = 2) \<and>
           (e \<noteq> ErrNotExist \<and> e \<noteq> ErrPermission \<longrightarrow> code = 0)"
  using assms
  by (simp add: serve_def session_serve_def read_Cons serveRRQ_def writeError_trace
      writeError_frame)

text \<open>The theorem at a request for the file that may not be read.\<close>

theorem serve_RRQ_backend_error_witness:
  "\<exists>w'. serve ascii_Quote example_backend (example_world [(0, Inr (RRQ ''secret'' [])), (9, Inr (ACK 1))])
          = Some (Returned, w') \<and>
        trace w' = [EvRead (Inr (RRQ ''secret'' [])), EvReadFile UDPAddr_zero ''secret'',
                    EvWrite (ERROR 2 ''permission denied'')] \<and>
        incoming w' = [(9, Inr (ACK 1))]"
  using serve_RRQ_backend_error [of "example_world [(0, Inr (RRQ ''secret'' [])), (9, Inr (ACK 1))]"
      0 "''secret''" "[]" "[(9, Inr (ACK 1))]" example_backend ErrPermission,
      where quote = ascii_Quote]
  by (auto simp: example_world_simps example_backend_simps)

text \<open>
  Claim C4 as stated fails: a backend that opens files with \<^verbatim>\<open>os.Open\<close> reports a
  missing file by a path error around \<^verbatim>\<open>ENOENT\<close>, which is not the sentinel, and the
  session answers with code 0 where the claim has code 1.
\<close>

theorem serve_RRQ_backend_error_counterexample:
  "ReadFile example_os_backend UDPAddr_zero ''boot.img''
     = Inl (PathError ''open'' ''boot.img'' ENOENT) \<and>
   reports_not_exist (PathError ''open'' ''boot.img'' ENOENT) \<and>
   map_option (writes \<circ> trace \<circ> snd)
     (serve ascii_Quote example_os_backend (example_world [(0, Inr (RRQ ''boot.img'' []))]))
   = Some [ERROR 0 ''open boot.img: no such file or directory'']"
  by (simp add: serve_def session_serve_def read_def serveRRQ_def example_world_def
      example_os_backend_def writeError_def write_packet_def)

text \<open>
  Claim C5. A write request, whatever its file name and options, is answered with
  the one error packet \<open>ERROR 0 ''not supported''\<close>; the session then returns, having
  read nothing more and written nothing else.
\<close>

theorem serve_WRQ_not_supported:
  assumes "incoming w = (dt, Inr (WRQ filename opts)) # rest"
  shows "\<exists>w'. serve quote h w = Some (Returned, w') \<and>
           trace w' = trace w @ [EvRead (Inr (WRQ filename opts)),
                                 EvWrite (ERROR 0 ''not supported'')] \<and>
           incoming w' = rest"
  using assms
  by (simp add: serve_def session_serve_def read_Cons serveWRQ_def writeError_trace
      writeError_frame)

theorem serve_WRQ_not_supported_witness:
  "\<exists>w'. serve ascii_Quote example_backend (example_world [(0, Inr (WRQ ''notes'' [(''blksize'', ''soon'')]))])
          = Some (Returned, w') \<and>
        trace w' = [EvRead (Inr (WRQ ''notes'' [(''blksize'', ''soon'')])),
                    EvWrite (ERROR 0 ''not supported'')] \<and>
        incoming w' = []"
  using serve_WRQ_not_supported [of "example_world [(0, Inr (WRQ ''notes'' [(''blksize'', ''soon'')]))]"
      0 "''notes''" "[(''blksize'', ''soon'')]" "[]", where quote = ascii_Quote and h = example_backend]
  by (simp add: example_world_simps)

lemma negotiate_fails:
  assumes "(\<exists>x e. map_of opts ''blksize'' = Some x \<and> Atoi x = Inl e) \<or>
           (\<exists>y e. map_of opts ''timeout'' = Some y \<and> Atoi y = Inl e)"
  shows "\<exists>e s'. negotiate opts s = (Inl e, s')"
proof (cases "map_of opts ''blksize''")
  case None
  with assms obtain y e where "map_of opts ''timeout'' = Some y" "Atoi y = Inl e" by auto
  with None show ?thesis by (simp add: negotiate_blksize_absent negotiate_timeout_error)
next
  case (Some x)
  show ?thesis
  proof (cases "Atoi x")
    case (Inl e)
    with Some show ?thesis by (simp add: negotiate_blksize_error)
  next
    case (Inr v)
    with Some assms obtain y e where "map_of opts ''timeout'' = Some y" "Atoi y = Inl e" by auto
    with Some Inr show ?thesis by (simp add: negotiate_blksize_ok negotiate_timeout_error)
  qed
qed

text \<open>
  Claim C6, as the code has it. The file is resolved before the options are looked
  at. For a read request whose file the backend resolves and whose \<^verbatim>\<open>blksize\<close> or
  \<^verbatim>\<open>timeout\<close> value does not parse as an integer, \<^verbatim>\<open>negotiate\<close> fails with an error
  \<open>e\<close>, the session writes the single packet \<open>ERROR 8 (NumError_Error quote e)\<close>, the
  text of \<open>e\<close>, closes the stream and returns. No option acknowledgement and no data
  block is written.
\<close>

theorem serve_RRQ_negotiation_error:
  assumes rrq: "incoming w = (dt, Inr (RRQ filename opts)) # rest"
      and resolved: "ReadFile h UDPAddr_zero filename = Inr rc"
      and bad: "(\<exists>x e. map_of opts ''blksize'' = Some x \<and> Atoi x = Inl e) \<or>
                (\<exists>y e. map_of opts ''timeout'' = Some y \<and> Atoi y = Inl e)"
  shows "\<exists>e s' w'. negotiate opts \<lparr>blksize = 512, timeout = 3\<rparr> = (Inl e, s') \<and>
           serve quote h w = Some (Returned, w') \<and>
           trace w' = trace w @ [EvRead (Inr (RRQ filename opts)),
                                 EvReadFile UDPAddr_zero filename,
                                 EvWrite (ERROR 8 (NumError_Error quote e)), EvClose] \<and>
           incoming w' = rest"
proof -
  from negotiate_fails [OF bad]
  obtain e s' where neg: "negotiate opts \<lparr>blksize = 512, timeout = 3\<rparr> = (Inl e, s')" by blast
  from bad have "opts \<noteq> []" by auto
  with rrq resolved neg show ?thesis
    by (simp add: serve_def session_serve_def read_Cons serveRRQ_def deferred_Close_def
        writeError_trace writeError_frame)
qed

text \<open>The theorem at a request whose block size parses and whose timeout does not.\<close>

theorem serve_RRQ_negotiation_error_witness:
  "\<exists>w'. serve ascii_Quote example_backend
           (example_world [(0, Inr (RRQ ''notes'' [(''blksize'', ''8''), (''timeout'', ''soon'')])),
                           (9, Inr (ACK 0))])
          = Some (Returned, w') \<and>
        writes (trace w') = [ERROR 8 (''strconv.Atoi: parsing '' @ [CHR 0x22] @ ''soon'' @ [CHR 0x22] @ '': invalid syntax'')] \<and>
        incoming w' = [(9, Inr (ACK 0))]"
proof -
  let ?opts = "[(''blksize'', ''8''), (''timeout'', ''soon'')]"
  let ?w = "example_world [(0, Inr (RRQ ''notes'' ?opts)), (9, Inr (ACK 0))]"
  have bad: "(\<exists>x e. map_of ?opts ''blksize'' = Some x \<and> Atoi x = Inl e) \<or>
             (\<exists>y e. map_of ?opts ''timeout'' = Some y \<and> Atoi y = Inl e)"
    by (simp add: Atoi_examples)
  have neg: "negotiate ?opts \<lparr>blksize = 512, timeout = 3\<rparr>
      = (Inl (NumError ''Atoi'' ''soon'' ErrSyntax), \<lparr>blksize = 8, timeout = 3\<rparr>)"
    by (simp add: negotiate_def negotiate_timeout_def Atoi_examples)
  from serve_RRQ_negotiation_error [of ?w 0 "''notes''" ?opts "[(9, Inr (ACK 0))]" example_backend
      "[104, 105, 10]", OF _ _ bad, where quote = ascii_Quote]
  show ?thesis
    by (auto simp: example_world_simps example_backend_simps neg ascii_Quote_def quote_byte_def)
qed

text \<open>
  Claim C6 as stated fails: a read request with a block size that does not parse,
  for a file that does not exist, is answered with code 1 for the missing file; no
  packet with code 8 is sent.
\<close>

theorem serve_RRQ_negotiation_error_counterexample:
  "Atoi ''x'' = Inl (NumError ''Atoi'' ''x'' ErrSyntax) \<and>
   map_option (writes \<circ> trace \<circ> snd)
     (serve ascii_Quote example_backend
        (example_world [(0, Inr (RRQ ''missing'' [(''blksize'', ''x'')]))]))
   = Some [ERROR 1 ''file does not exist'']"
  by (simp add: Atoi_examples serve_def session_serve_def read_def serveRRQ_def example_world_def
      example_backend_def example_ReadFile_def writeError_def write_packet_def)

text \<open>
  With a regular file behind the stream the session always comes to an end: every
  round of the transfer loop either returns or leaves fewer bytes to read.
\<close>

lemma sendBlocks_file_returns:
  assumes "0 < blksize s" and "Read h = file_Read"
  shows "\<exists>y. sendBlocks h s b bytes w = Some y"
proof (induction "length bytes" arbitrary: bytes b w rule: less_induct)
  case less
  let ?B = "nat (blksize s)"
  show ?case
  proof (cases "bytes = []")
    case True
    with assms(2) show ?thesis
      by (subst sendBlocks.simps) (simp add: file_Read_def)
  next
    case False
    obtain r w1 where ex: "writeAndWaitForPacket s (DATA b (take ?B bytes)) (ackValidator b) w = (r, w1)"
      by (cases "writeAndWaitForPacket s (DATA b (take ?B bytes)) (ackValidator b) w")
    have shorter: "length (drop ?B bytes) < length bytes"
      using False assms(1) by simp
    show ?thesis
    proof (cases r)
      case (Inl e)
      with False assms ex show ?thesis
        by (subst sendBlocks.simps) (simp add: file_Read_def)
    next
      case (Inr q)
      from less [OF shorter, of "b + 1" w1]
      obtain y where "sendBlocks h s (b + 1) (drop ?B bytes) w1 = Some y" by blast
      with Inr False assms ex show ?thesis
        by (subst sendBlocks.simps) (simp add: file_Read_def)
    qed
  qed
qed

lemma negotiate_timeout_blksize:
  "negotiate_timeout opts oack s = (r, s') \<Longrightarrow> blksize s' = blksize s"
  by (auto simp: negotiate_timeout_def Let_def split: option.splits sum.splits)

lemma negotiate_blksize_pos:
  assumes "negotiate opts s = (r, s')" and "0 < blksize s"
  shows "0 < blksize s'"
  using assms
  by (auto simp: negotiate_def Let_def split: option.splits sum.splits if_splits
      dest!: negotiate_timeout_blksize)

lemma serveRRQ_file_returns:
  assumes "0 < blksize s" and "Read h = file_Read"
  shows "\<exists>y. serveRRQ quote h s filename opts w = Some y"
proof (cases "ReadFile h UDPAddr_zero filename")
  case (Inl e)
  then show ?thesis by (simp add: serveRRQ_def Let_def)
next
  case (Inr rc)
  let ?w = "w\<lparr>trace := trace w @ [EvReadFile UDPAddr_zero filename]\<rparr>"
  show ?thesis
  proof (cases "opts = []")
    case True
    from sendBlocks_file_returns [OF assms, of 1 rc ?w]
    obtain y where "sendBlocks h s 1 rc ?w = Some y" by blast
    with Inr True show ?thesis by (simp add: serveRRQ_def deferred_Close_def Let_def)
  next
    case False
    obtain r s' where neg: "negotiate opts s = (r, s')" by (cases "negotiate opts s")
    have pos: "0 < blksize s'" using neg assms(1) by (rule negotiate_blksize_pos)
    show ?thesis
    proof (cases r)
      case (Inl e)
      with Inr False neg show ?thesis by (simp add: serveRRQ_def deferred_Close_def Let_def)
    next
      case accepted: (Inr accepted)
      obtain x w1 where ex: "writeAndWaitForPacket s' (OACK accepted) (ackValidator 0) ?w = (x, w1)"
        by (cases "writeAndWaitForPacket s' (OACK accepted) (ackValidator 0) ?w")
      show ?thesis
      proof (cases x)
        case (Inl e)
        with Inr False neg accepted ex show ?thesis
          by (simp add: serveRRQ_def deferred_Close_def Let_def)
      next
        case q: (Inr q)
        from sendBlocks_file_returns [OF pos assms(2), of 1 rc w1]
        obtain y where "sendBlocks h s' 1 rc w1 = Some y" by blast
        with Inr False neg accepted ex q show ?thesis
          by (simp add: serveRRQ_def deferred_Close_def Let_def)
      qed
    qed
  qed
qed

lemma serve_file_returns:
  assumes "Read h = file_Read"
  shows "\<exists>y. serve quote h w = Some y"
proof -
  obtain x w1 where rd: "read 0 w = (x, w1)" by (cases "read 0 w")
  show ?thesis
  proof (cases x)
    case (Inl e)
    with rd show ?thesis by (simp add: serve_def session_serve_def)
  next
    case (Inr p)
    show ?thesis
    proof (cases p)
      case (RRQ filename opts)
      from serveRRQ_file_returns [OF _ assms, of "\<lparr>blksize = 512, timeout = 3\<rparr>" quote filename opts w1]
      obtain y where "serveRRQ quote h \<lparr>blksize = 512, timeout = 3\<rparr> filename opts w1 = Some y"
        by auto
      with rd Inr RRQ show ?thesis by (simp add: serve_def session_serve_def)
    qed (use rd Inr in \<open>simp_all add: serve_def session_serve_def\<close>)
  qed
qed

text \<open>
  Claim C10, as the code has it. The claim says the backend is given the identity of
  the requesting peer. The session has no access to it and calls \<^verbatim>\<open>ReadFile\<close> with
  the zero address: in every session for a read request that comes to its end,
  \<^verbatim>\<open>ReadFile\<close> has been called exactly once, with \<^verbatim>\<open>&net.UDPAddr{}\<close> and the file name
  of the request; and with a regular file behind the stream every session does come
  to its end.
\<close>

theorem serve_ReadFile_zero_address:
  assumes "incoming w = (dt, Inr (RRQ filename opts)) # rest"
  shows "(\<forall>out w'. serve quote h w = Some (out, w') \<longrightarrow>
            readfile_calls (trace w') = readfile_calls (trace w) @ [(UDPAddr_zero, filename)]) \<and>
         (Read h = file_Read \<longrightarrow> (\<exists>y. serve quote h w = Some y))"
proof (intro conjI allI impI)
  fix out w'
  assume run: "serve quote h w = Some (out, w')"
  let ?w1 = "w\<lparr>clock := clock w + int dt, incoming := rest,
               trace := trace w @ [EvRead (Inr (RRQ filename opts))]\<rparr>"
  from assms run have "serveRRQ quote h \<lparr>blksize = 512, timeout = 3\<rparr> filename opts ?w1 = Some (out, w')"
    by (simp add: serve_def session_serve_def read_Cons)
  from serveRRQ_readfile_calls [OF this]
  show "readfile_calls (trace w') = readfile_calls (trace w) @ [(UDPAddr_zero, filename)]"
    by (simp add: readfile_calls_append)
next
  assume "Read h = file_Read"
  then show "\<exists>y. serve quote h w = Some y" by (rule serve_file_returns)
qed

theorem serve_ReadFile_zero_address_witness:
  "\<exists>out w'. serve ascii_Quote example_backend (example_world [(0, Inr (RRQ ''secret'' []))]) = Some (out, w') \<and>
     readfile_calls (trace w') = [(UDPAddr_zero, ''secret'')]"
proof -
  let ?w = "example_world [(0, Inr (RRQ ''secret'' []))]"
  from serve_ReadFile_zero_address [of ?w 0 "''secret''" "[]" "[]",
      where quote = ascii_Quote and h = example_backend]
  have all: "\<forall>out w'. serve ascii_Quote example_backend ?w = Some (out, w') \<longrightarrow>
      readfile_calls (trace w') = [(UDPAddr_zero, ''secret'')]"
    and ex: "\<exists>y. serve ascii_Quote example_backend ?w = Some y"
    by (simp_all add: example_world_simps example_backend_def)
  from ex obtain out w' where "serve ascii_Quote example_backend ?w = Some (out, w')" by auto
  with all show ?thesis by blast
qed

text \<open>
  Claim C10 as stated fails: the peer at 192.0.2.7 asks for a file, and the address
  the backend is called with is not the peer's.
\<close>

theorem serve_ReadFile_peer_counterexample:
  "map_option (readfile_calls \<circ> trace \<circ> snd)
     (serve ascii_Quote example_backend (example_world [(0, Inr (RRQ ''secret'' []))]))
   = Some [(UDPAddr_zero, ''secret'')] \<and>
   map_option (readfile_calls \<circ> trace \<circ> snd)
     (serve ascii_Quote example_backend (example_world [(0, Inr (RRQ ''secret'' []))]))
   \<noteq> Some [(peer (example_world [(0, Inr (RRQ ''secret'' []))]), ''secret'')]"
  by (simp add: serve_def session_serve_def read_def serveRRQ_def example_world_def
      example_backend_simps writeError_def write_packet_def example_peer_def UDPAddr_zero_def)

end
